theory Spec2Isabelle
  imports Main "HOL-Library.Word"
begin

section \<open>Quota and payment commands of greenfield-cmd (cmd/cmd\_payment.go)\<close>

text \<open>
  The three command actions of \<^verbatim>\<open>cmd/cmd_payment.go\<close> are embedded as pure functions
  that return the observable behaviour of one command run: the list of calls made on
  the chain client together with the lines the action itself prints, in program order,
  and the Go \<^verbatim>\<open>error\<close> the action returns (\<open>None\<close> is \<^verbatim>\<open>nil\<close>).
  The chain client, the locator resolver, the client constructor and the decimal
  conversion are collaborators outside the file; they are parameters of the model.
\<close>

subsection \<open>Errors\<close>

text \<open>
  Go \<^verbatim>\<open>error\<close> values. \<open>ErrBucketNotExist\<close> is the package-level sentinel the file
  refers to, \<open>ErrorsNew m\<close> is \<^verbatim>\<open>errors.New(m)\<close>, \<open>Canceled\<close> is \<^verbatim>\<open>context.Canceled\<close>
  as a collaborator returns it when its context is cancelled, \<open>ChainError m\<close> is any other
  error a collaborator returns (identified by its message), and \<open>CmdErr e\<close> is the value
  of \<^verbatim>\<open>toCmdErr(e)\<close>.
\<close>

datatype go_error =
    ErrBucketNotExist
  | ErrorsNew string
  | Canceled
  | ChainError string
  | CmdErr go_error

text \<open>
  Modelled from the spec: \<^verbatim>\<open>toCmdErr\<close> is declared outside \<^verbatim>\<open>cmd_payment.go\<close>. The spec
  (section 7) says that input and precondition errors are surfaced as a nonzero exit with
  a descriptive message, so the wrapper yields a non-nil command error that carries the
  error it was given. Whatever the wrapper itself prints is not part of the trace below.
\<close>

definition toCmdErr :: "go_error \<Rightarrow> go_error option" where
  "toCmdErr err = Some (CmdErr err)"

subsection \<open>Data of the SDK that the file uses\<close>

text \<open>\<^verbatim>\<open>tx.BroadcastMode\<close> of the cosmos SDK.\<close>

datatype broadcast_mode =
    BROADCAST_MODE_UNSPECIFIED
  | BROADCAST_MODE_BLOCK
  | BROADCAST_MODE_SYNC
  | BROADCAST_MODE_ASYNC

text \<open>\<^verbatim>\<open>types.TxOption{Mode: *BroadcastMode}\<close>; a nil pointer is \<open>None\<close>.\<close>

record tx_option =
  Mode :: "broadcast_mode option"

text \<open>\<^verbatim>\<open>sdktypes.BuyQuotaOption{TxOpts: *TxOption}\<close>.\<close>

record buy_quota_option =
  TxOpts :: "tx_option option"

text \<open>The price record returned by \<^verbatim>\<open>GetStoragePrice\<close>; \<open>'d\<close> is the SDK's decimal type.\<close>

record 'd storage_price =
  ReadPrice :: 'd
  StorePrice :: 'd

text \<open>The quota record returned by \<^verbatim>\<open>GetBucketReadQuota\<close>; the three fields are uint64.\<close>

record quota_info =
  ReadQuotaSize :: "64 word"
  SPFreeReadQuotaSize :: "64 word"
  ReadConsumedSize :: "64 word"

text \<open>
  \<^verbatim>\<open>context.Context\<close>: the process-wide \<^verbatim>\<open>globalContext\<close> and the cancellable
  contexts derived from it by \<^verbatim>\<open>context.WithCancel\<close>.
\<close>

datatype go_context = globalContext | WithCancel go_context

subsection \<open>The chain client and the other collaborators\<close>

text \<open>
  The four methods of the chain client that the file calls. A Go result pair
  \<^verbatim>\<open>(v, err)\<close> is a sum: \<open>Inl err\<close> when \<^verbatim>\<open>err != nil\<close>, \<open>Inr v\<close> otherwise.
  Each action calls each method at most once, so what that call returns is a function
  of its arguments. \<open>'b\<close> is the bucket information \<^verbatim>\<open>HeadBucket\<close> returns.
\<close>

record ('b, 'd) client =
  HeadBucket :: "go_context \<Rightarrow> string \<Rightarrow> go_error + 'b"
  BuyQuotaForBucket ::
    "go_context \<Rightarrow> string \<Rightarrow> 64 word \<Rightarrow> buy_quota_option \<Rightarrow> go_error + string"
  GetStoragePrice :: "go_context \<Rightarrow> string \<Rightarrow> go_error + 'd storage_price"
  GetBucketReadQuota :: "go_context \<Rightarrow> string \<Rightarrow> go_error + quota_info"

text \<open>
  \<^verbatim>\<open>cli.Context\<close>: the positional arguments and the flags that were set.
  \<^verbatim>\<open>ctx.Uint64(name)\<close> and \<^verbatim>\<open>ctx.String(name)\<close> return the zero value of the type
  for a flag that is not set.
\<close>

record cli_context =
  Args :: "string list"
  Uint64Flags :: "(string \<times> 64 word) list"
  StringFlags :: "(string \<times> string) list"

definition ctx_Uint64 :: "cli_context \<Rightarrow> string \<Rightarrow> 64 word" where
  "ctx_Uint64 ctx name = (case map_of (Uint64Flags ctx) name of None \<Rightarrow> 0 | Some v \<Rightarrow> v)"

definition ctx_String :: "cli_context \<Rightarrow> string \<Rightarrow> string" where
  "ctx_String ctx name = (case map_of (StringFlags ctx) name of None \<Rightarrow> [] | Some v \<Rightarrow> v)"

text \<open>
  Modelled from the spec: the flag-name constants \<^verbatim>\<open>chargeQuotaFlag\<close> and
  \<^verbatim>\<open>spAddressFlag\<close> are declared outside \<^verbatim>\<open>cmd_payment.go\<close>. They are the spec's
  target-quota flag and storage-provider-address flag, which the command descriptions in
  the file write \<^verbatim>\<open>--chargedQuota\<close> and \<^verbatim>\<open>--spAddress\<close>.
\<close>

definition chargeQuotaFlag :: string where
  "chargeQuotaFlag = ''chargedQuota''"

definition spAddressFlag :: string where
  "spAddressFlag = ''spAddress''"

text \<open>
  The collaborators of one command run: \<^verbatim>\<open>getBucketNameByUrl(ctx)\<close>, \<^verbatim>\<open>NewClient(ctx)\<close>
  and the decimal's \<^verbatim>\<open>Float64()\<close> method, with \<open>'f\<close> for float64.
\<close>

record ('b, 'd, 'f) env =
  getBucketNameByUrl :: "cli_context \<Rightarrow> go_error + string"
  NewClient :: "cli_context \<Rightarrow> go_error + ('b, 'd) client"
  Float64 :: "'d \<Rightarrow> go_error + 'f"

subsection \<open>Observable behaviour\<close>

text \<open>
  An argument of a print call: a string, the text \<^verbatim>\<open>err.Error()\<close> of an error, a
  float64 or a uint64.
\<close>

datatype 'f arg = Str string | ErrorText go_error | Float 'f | UInt "64 word"

text \<open>
  One observable step of an action: a call on the chain client with its arguments, or
  \<^verbatim>\<open>fmt.Println(args...)\<close>, or \<^verbatim>\<open>fmt.Printf(format, args...)\<close>.
\<close>

datatype 'f event =
    HeadBucketCall go_context string
  | BuyQuotaForBucketCall go_context string "64 word" buy_quota_option
  | GetStoragePriceCall go_context string
  | GetBucketReadQuotaCall go_context string
  | Println "'f arg list"
  | Printf string "'f arg list"

fun is_network_call :: "'f event \<Rightarrow> bool" where
  "is_network_call (HeadBucketCall c b) = True"
| "is_network_call (BuyQuotaForBucketCall c b q opt) = True"
| "is_network_call (GetStoragePriceCall c a) = True"
| "is_network_call (GetBucketReadQuotaCall c b) = True"
| "is_network_call (Println args) = False"
| "is_network_call (Printf fmt args) = False"

fun is_submission :: "'f event \<Rightarrow> bool" where
  "is_submission (BuyQuotaForBucketCall c b q opt) = True"
| "is_submission e = False"

fun is_quota_read :: "'f event \<Rightarrow> bool" where
  "is_quota_read (GetBucketReadQuotaCall c b) = True"
| "is_quota_read e = False"

fun is_float :: "'f arg \<Rightarrow> bool" where
  "is_float (Float x) = True"
| "is_float a = False"

text \<open>An event that prints a converted price.\<close>

fun prints_price :: "'f event \<Rightarrow> bool" where
  "prints_price (Println args) = list_ex is_float args"
| "prints_price (Printf fmt args) = list_ex is_float args"
| "prints_price e = False"

subsection \<open>The command actions\<close>

text \<open>\<^verbatim>\<open>buyQuotaForBucket\<close>, lines 76 to 113.\<close>

definition buyQuotaForBucket ::
  "('b, 'd, 'f) env \<Rightarrow> cli_context \<Rightarrow> 'f event list \<times> go_error option" where
  "buyQuotaForBucket env ctx =
    (case getBucketNameByUrl env ctx of
       Inl err \<Rightarrow> ([], toCmdErr err)
     | Inr bucketName \<Rightarrow>
        (case NewClient env ctx of
           Inl err \<Rightarrow> ([], toCmdErr err)
         | Inr client \<Rightarrow>
            (let c = WithCancel globalContext;
                 t1 = [HeadBucketCall c bucketName]
             in case HeadBucket client c bucketName of
                  Inl err \<Rightarrow> (t1, toCmdErr ErrBucketNotExist)
                | Inr info \<Rightarrow>
                   (let targetQuota = ctx_Uint64 ctx chargeQuotaFlag
                    in if targetQuota = 0
                       then (t1, toCmdErr (ErrorsNew ''target quota not set''))
                       else
                        (let broadcastMode = BROADCAST_MODE_BLOCK;
                             txnOpt = \<lparr>Mode = Some broadcastMode\<rparr>;
                             opt = \<lparr>TxOpts = Some txnOpt\<rparr>;
                             t2 = t1 @ [BuyQuotaForBucketCall c bucketName targetQuota opt]
                         in case BuyQuotaForBucket client c bucketName targetQuota opt of
                              Inl err \<Rightarrow>
                                (t2 @ [Println [Str ''buy quota error:'', ErrorText err]],
                                 None)
                            | Inr txnHash \<Rightarrow>
                                (t2 @ [Printf
                                   ''buy quota for bucket: %s successfully, txn hash: %s\<newline>''
                                   [Str bucketName, Str txnHash]],
                                 None))))))"

text \<open>\<^verbatim>\<open>getQuotaPrice\<close>, lines 116 to 150.\<close>

definition getQuotaPrice ::
  "('b, 'd, 'f) env \<Rightarrow> cli_context \<Rightarrow> 'f event list \<times> go_error option" where
  "getQuotaPrice env ctx =
    (case NewClient env ctx of
       Inl err \<Rightarrow> ([], toCmdErr err)
     | Inr client \<Rightarrow>
        (let c = WithCancel globalContext;
             spAddressStr = ctx_String ctx spAddressFlag
         in if spAddressStr = []
            then ([], toCmdErr (ErrorsNew ''fail to fetch sp address''))
            else
             (let t1 = [GetStoragePriceCall c spAddressStr]
              in case GetStoragePrice client c spAddressStr of
                   Inl err \<Rightarrow> (t1, toCmdErr err)
                 | Inr price \<Rightarrow>
                    (case Float64 env (ReadPrice price) of
                       Inl err \<Rightarrow>
                         (t1 @ [Println [Str ''get quota price error:'', ErrorText err]],
                          Some err)
                     | Inr quotaPrice \<Rightarrow>
                        (case Float64 env (StorePrice price) of
                           Inl err \<Rightarrow>
                             (t1 @ [Println [Str ''get storage price error:'', ErrorText err]],
                              Some err)
                         | Inr storagePrice \<Rightarrow>
                             (t1 @
                              [Println [Str ''get bucket read quota price:'', Float quotaPrice,
                                        Str '' wei/byte''],
                               Println [Str ''get bucket storage price:'', Float storagePrice,
                                        Str '' wei/byte'']],
                              None))))))"

text \<open>\<^verbatim>\<open>getQuotaInfo\<close>, lines 153 to 181.\<close>

definition getQuotaInfo ::
  "('b, 'd, 'f) env \<Rightarrow> cli_context \<Rightarrow> 'f event list \<times> go_error option" where
  "getQuotaInfo env ctx =
    (case getBucketNameByUrl env ctx of
       Inl err \<Rightarrow> ([], toCmdErr err)
     | Inr bucketName \<Rightarrow>
        (case NewClient env ctx of
           Inl err \<Rightarrow> ([], toCmdErr err)
         | Inr client \<Rightarrow>
            (let c = WithCancel globalContext;
                 t1 = [HeadBucketCall c bucketName]
             in case HeadBucket client c bucketName of
                  Inl err \<Rightarrow> (t1, toCmdErr ErrBucketNotExist)
                | Inr info \<Rightarrow>
                   (let t2 = t1 @ [GetBucketReadQuotaCall c bucketName]
                    in case GetBucketReadQuota client c bucketName of
                         Inl err \<Rightarrow> (t2, toCmdErr err)
                       | Inr quotaInfo \<Rightarrow>
                           (t2 @ [Printf
                              ''quota info:\<newline> charged quota:%d \<newline>free quota:%d \<newline> consumed quota:%d \<newline>''
                              [UInt (ReadQuotaSize quotaInfo),
                               UInt (SPFreeReadQuotaSize quotaInfo),
                               UInt (ReadConsumedSize quotaInfo)]],
                            None)))))"

subsection \<open>Stub collaborators\<close>

text \<open>
  A stub chain client in the style of the spec's test scenarios: bucket \<open>b1\<close> exists,
  a purchase is accepted with handle \<open>0xABC\<close>, the prices are \<open>0.001\<close> and \<open>0.002\<close>
  and the ledger holds 1000000, 200000 and 50000. Decimals and floats are kept as text.
\<close>

definition stub_client :: "(unit, string) client" where
  "stub_client =
    \<lparr>HeadBucket = (\<lambda>c b. Inr ()),
     BuyQuotaForBucket = (\<lambda>c b q opt. Inr ''0xABC''),
     GetStoragePrice = (\<lambda>c a. Inr \<lparr>ReadPrice = ''0.001'', StorePrice = ''0.002''\<rparr>),
     GetBucketReadQuota = (\<lambda>c b.
        Inr \<lparr>ReadQuotaSize = 1000000, SPFreeReadQuotaSize = 200000,
             ReadConsumedSize = 50000\<rparr>)\<rparr>"

text \<open>The same client with every call failing with the error \<open>e\<close>.\<close>

definition failing_client :: "go_error \<Rightarrow> (unit, string) client" where
  "failing_client e =
    \<lparr>HeadBucket = (\<lambda>c b. Inl e),
     BuyQuotaForBucket = (\<lambda>c b q opt. Inl e),
     GetStoragePrice = (\<lambda>c a. Inl e),
     GetBucketReadQuota = (\<lambda>c b. Inl e)\<rparr>"

text \<open>The bucket exists, and every later call fails with the error \<open>e\<close>.\<close>

definition failing_after_head :: "go_error \<Rightarrow> (unit, string) client" where
  "failing_after_head e = (failing_client e)\<lparr>HeadBucket := (\<lambda>c b. Inr ())\<rparr>"

text \<open>The price query succeeds with a store price that does not convert.\<close>

definition bad_store_price_client :: "(unit, string) client" where
  "bad_store_price_client =
    stub_client\<lparr>GetStoragePrice :=
      (\<lambda>c a. Inr \<lparr>ReadPrice = ''0.001'', StorePrice = ''bad''\<rparr>)\<rparr>"

text \<open>
  The other collaborators: the locator resolves to \<open>b1\<close>, the given client is handed
  out, and the conversion fails exactly on the text \<open>bad\<close>.
\<close>

definition stub_env :: "(unit, string) client \<Rightarrow> (unit, string, string) env" where
  "stub_env cl =
    \<lparr>getBucketNameByUrl = (\<lambda>ctx. Inr ''b1''),
     NewClient = (\<lambda>ctx. Inr cl),
     Float64 = (\<lambda>d. if d = ''bad'' then Inl (ChainError ''parse'') else Inr d)\<rparr>"

text \<open>The same collaborators, except that constructing the client fails with \<open>e\<close>.\<close>

definition no_client_env :: "go_error \<Rightarrow> (unit, string, string) env" where
  "no_client_env e = (stub_env stub_client)\<lparr>NewClient := (\<lambda>ctx. Inl e)\<rparr>"

text \<open>Command lines: one that sets the target-quota flag to \<open>q\<close>, one that sets the address flag to \<open>a\<close>.\<close>

definition quota_ctx :: "64 word \<Rightarrow> cli_context" where
  "quota_ctx q =
    \<lparr>Args = [''gnfd://b1''], Uint64Flags = [(''chargedQuota'', q)], StringFlags = []\<rparr>"

definition address_ctx :: "string \<Rightarrow> cli_context" where
  "address_ctx a = \<lparr>Args = [], Uint64Flags = [], StringFlags = [(''spAddress'', a)]\<rparr>"


section \<open>Properties\<close>

lemmas stub_defs = stub_client_def failing_client_def failing_after_head_def
  bad_store_price_client_def stub_env_def quota_ctx_def address_ctx_def
  ctx_Uint64_def ctx_String_def chargeQuotaFlag_def spAddressFlag_def

subsection \<open>C1: a zero target quota\<close>

text \<open>
  C1 as stated fails: with a target quota of 0 the action still calls \<^verbatim>\<open>HeadBucket\<close> on
  the chain client, because the existence check (line 91) comes before the quota check
  (line 97). On the stub client, whose bucket exists, the trace of a run with target
  quota 0 contains a network call.
\<close>

theorem buyQuota_zero_target_counterexample:
  "ctx_Uint64 (quota_ctx 0) chargeQuotaFlag = 0 \<and>
   list_ex is_network_call (fst (buyQuotaForBucket (stub_env stub_client) (quota_ctx 0)))"
  by (simp add: buyQuotaForBucket_def toCmdErr_def stub_defs)

text \<open>
  C1, amended: for every run of \<^verbatim>\<open>buyQuotaForBucket\<close> with target quota 0, the action
  fails and never invokes the submission step; when the locator resolves, the client is
  built and the existence check succeeds, the existence check is the only call made on
  the chain client and the failure is the input error \<open>target quota not set\<close>.
\<close>

theorem buyQuota_zero_target:
  "ctx_Uint64 ctx chargeQuotaFlag = 0 \<Longrightarrow>
   \<not> list_ex is_submission (fst (buyQuotaForBucket env ctx)) \<and>
   snd (buyQuotaForBucket env ctx) \<noteq> None \<and>
   (getBucketNameByUrl env ctx = Inr b \<and> NewClient env ctx = Inr cl \<and>
    HeadBucket cl (WithCancel globalContext) b = Inr i \<longrightarrow>
      buyQuotaForBucket env ctx =
        ([HeadBucketCall (WithCancel globalContext) b],
         Some (CmdErr (ErrorsNew ''target quota not set''))))"
  by (simp add: buyQuotaForBucket_def toCmdErr_def Let_def split: sum.splits)

theorem buyQuota_zero_target_witness:
  "ctx_Uint64 (quota_ctx 0) chargeQuotaFlag = 0 \<and>
   buyQuotaForBucket (stub_env stub_client) (quota_ctx 0) =
     ([HeadBucketCall (WithCancel globalContext) ''b1''],
      Some (CmdErr (ErrorsNew ''target quota not set'')))"
proof -
  have h: "ctx_Uint64 (quota_ctx 0) chargeQuotaFlag = 0"
    by (simp add: stub_defs)
  have pre: "getBucketNameByUrl (stub_env stub_client) (quota_ctx 0) = Inr ''b1'' \<and>
      NewClient (stub_env stub_client) (quota_ctx 0) = Inr stub_client \<and>
      HeadBucket stub_client (WithCancel globalContext) ''b1'' = Inr ()"
    by (simp add: stub_defs)
  from buyQuota_zero_target [OF h, of "stub_env stub_client" "''b1''" stub_client "()"] pre h
  show ?thesis by blast
qed

subsection \<open>C2: a rejected purchase is a diagnostic, not an error\<close>

text \<open>
  C2: for every run of \<^verbatim>\<open>buyQuotaForBucket\<close> in which the submission call on the chain
  client fails with an error \<open>err\<close>, the action prints the diagnostic line
  \<open>buy quota error:\<close> followed by the text of \<open>err\<close> as its last step and returns
  \<^verbatim>\<open>nil\<close>: the failure is not propagated.
\<close>

theorem buyQuota_submission_failure_downgraded:
  "getBucketNameByUrl env ctx = Inr b \<Longrightarrow>
   NewClient env ctx = Inr cl \<Longrightarrow>
   HeadBucket cl (WithCancel globalContext) b = Inr i \<Longrightarrow>
   ctx_Uint64 ctx chargeQuotaFlag \<noteq> 0 \<Longrightarrow>
   BuyQuotaForBucket cl (WithCancel globalContext) b (ctx_Uint64 ctx chargeQuotaFlag)
     \<lparr>TxOpts = Some \<lparr>Mode = Some BROADCAST_MODE_BLOCK\<rparr>\<rparr> = Inl err \<Longrightarrow>
   snd (buyQuotaForBucket env ctx) = None \<and>
   last (fst (buyQuotaForBucket env ctx)) = Println [Str ''buy quota error:'', ErrorText err]"
  by (simp add: buyQuotaForBucket_def Let_def)

theorem buyQuota_submission_failure_downgraded_witness:
  "snd (buyQuotaForBucket (stub_env (failing_after_head (ChainError ''insufficient balance'')))
          (quota_ctx 1000000)) = None \<and>
   last (fst (buyQuotaForBucket (stub_env (failing_after_head (ChainError ''insufficient balance'')))
          (quota_ctx 1000000))) =
     Println [Str ''buy quota error:'', ErrorText (ChainError ''insufficient balance'')]"
  by (rule buyQuota_submission_failure_downgraded
        [of _ _ "''b1''" "failing_after_head (ChainError ''insufficient balance'')" "()"])
     (simp_all add: stub_defs)

subsection \<open>C3: a bucket that does not exist\<close>

text \<open>
  C3: for every bucket name for which \<^verbatim>\<open>HeadBucket\<close> reports an error, both
  \<^verbatim>\<open>buyQuotaForBucket\<close> and \<^verbatim>\<open>getQuotaInfo\<close> stop after the existence check and fail
  with the command error that carries \<open>ErrBucketNotExist\<close>, which differs from the
  command error of any error the chain returns; the trace holds the existence check only,
  so neither a submission nor a ledger read is attempted.
\<close>

theorem missing_bucket_stops_both:
  "getBucketNameByUrl env ctx = Inr b \<Longrightarrow>
   NewClient env ctx = Inr cl \<Longrightarrow>
   HeadBucket cl (WithCancel globalContext) b = Inl err \<Longrightarrow>
   buyQuotaForBucket env ctx =
     ([HeadBucketCall (WithCancel globalContext) b], Some (CmdErr ErrBucketNotExist)) \<and>
   getQuotaInfo env ctx =
     ([HeadBucketCall (WithCancel globalContext) b], Some (CmdErr ErrBucketNotExist)) \<and>
   \<not> list_ex is_submission (fst (buyQuotaForBucket env ctx)) \<and>
   \<not> list_ex is_quota_read (fst (getQuotaInfo env ctx)) \<and>
   toCmdErr ErrBucketNotExist \<noteq> toCmdErr (ChainError m) \<and>
   toCmdErr ErrBucketNotExist \<noteq> toCmdErr Canceled"
  by (simp add: buyQuotaForBucket_def getQuotaInfo_def toCmdErr_def Let_def)

theorem missing_bucket_stops_both_witness:
  "buyQuotaForBucket (stub_env (failing_client (ChainError ''No such bucket''))) (quota_ctx 1000000) =
     ([HeadBucketCall (WithCancel globalContext) ''b1''], Some (CmdErr ErrBucketNotExist)) \<and>
   getQuotaInfo (stub_env (failing_client (ChainError ''No such bucket''))) (quota_ctx 1000000) =
     ([HeadBucketCall (WithCancel globalContext) ''b1''], Some (CmdErr ErrBucketNotExist))"
proof -
  have "getBucketNameByUrl (stub_env (failing_client (ChainError ''No such bucket'')))
          (quota_ctx 1000000) = Inr ''b1''"
    and "NewClient (stub_env (failing_client (ChainError ''No such bucket'')))
          (quota_ctx 1000000) = Inr (failing_client (ChainError ''No such bucket''))"
    and "HeadBucket (failing_client (ChainError ''No such bucket''))
          (WithCancel globalContext) ''b1'' = Inl (ChainError ''No such bucket'')"
    by (simp_all add: stub_defs)
  from missing_bucket_stops_both [OF this] show ?thesis by blast
qed

subsection \<open>C4: the commitment mode of a purchase\<close>

text \<open>
  C4: every submission that \<^verbatim>\<open>buyQuotaForBucket\<close> makes on the chain client carries
  transaction options whose mode is \<^verbatim>\<open>BROADCAST_MODE_BLOCK\<close> (wait for inclusion in a
  block), whatever the collaborators and the command line are.
\<close>

theorem buyQuota_submits_in_block_mode:
  "BuyQuotaForBucketCall c b q opt \<in> set (fst (buyQuotaForBucket env ctx)) \<Longrightarrow>
   opt = \<lparr>TxOpts = Some \<lparr>Mode = Some BROADCAST_MODE_BLOCK\<rparr>\<rparr>"
  by (auto simp add: buyQuotaForBucket_def toCmdErr_def Let_def split: sum.splits if_splits)

theorem buyQuota_submits_in_block_mode_witness:
  "BuyQuotaForBucketCall (WithCancel globalContext) ''b1'' 1000000
     \<lparr>TxOpts = Some \<lparr>Mode = Some BROADCAST_MODE_BLOCK\<rparr>\<rparr>
     \<in> set (fst (buyQuotaForBucket (stub_env stub_client) (quota_ctx 1000000)))"
proof -
  have mem: "BuyQuotaForBucketCall (WithCancel globalContext) ''b1'' 1000000
      \<lparr>TxOpts = Some \<lparr>Mode = Some BROADCAST_MODE_BLOCK\<rparr>\<rparr>
      \<in> set (fst (buyQuotaForBucket (stub_env stub_client) (quota_ctx 1000000)))"
    by (simp add: buyQuotaForBucket_def Let_def stub_defs)
  from buyQuota_submits_in_block_mode [OF mem] mem show ?thesis by simp
qed

subsection \<open>C5: an empty storage-provider address\<close>

text \<open>
  C5 as stated fails: \<^verbatim>\<open>getQuotaPrice\<close> constructs the client (lines 117 to 120)
  before it looks at the address (lines 125 to 128). With an empty address and a client
  construction that fails, the action returns the construction error, not the
  missing-address error.
\<close>

theorem getQuotaPrice_empty_address_counterexample:
  "ctx_String (address_ctx []) spAddressFlag = [] \<and>
   getQuotaPrice (no_client_env (ChainError ''bad config'')) (address_ctx []) =
     ([], Some (CmdErr (ChainError ''bad config''))) \<and>
   snd (getQuotaPrice (no_client_env (ChainError ''bad config'')) (address_ctx [])) \<noteq>
     Some (CmdErr (ErrorsNew ''fail to fetch sp address''))"
  by (simp add: getQuotaPrice_def toCmdErr_def no_client_env_def stub_defs)

text \<open>
  C5, amended: for every run of \<^verbatim>\<open>getQuotaPrice\<close> with an empty storage-provider
  address, the action fails without any call on the chain client (no price query is
  issued); when the client was constructed the failure is the missing-address error
  \<open>fail to fetch sp address\<close>, and when its construction failed the failure is the
  construction error.
\<close>

theorem getQuotaPrice_empty_address:
  "ctx_String ctx spAddressFlag = [] \<Longrightarrow>
   fst (getQuotaPrice env ctx) = [] \<and>
   snd (getQuotaPrice env ctx) \<noteq> None \<and>
   (NewClient env ctx = Inr cl \<longrightarrow>
      snd (getQuotaPrice env ctx) = Some (CmdErr (ErrorsNew ''fail to fetch sp address''))) \<and>
   (NewClient env ctx = Inl e \<longrightarrow>
      snd (getQuotaPrice env ctx) = Some (CmdErr e))"
  by (simp add: getQuotaPrice_def toCmdErr_def Let_def split: sum.splits)

theorem getQuotaPrice_empty_address_witness:
  "ctx_String (address_ctx []) spAddressFlag = [] \<and>
   getQuotaPrice (stub_env stub_client) (address_ctx []) =
     ([], Some (CmdErr (ErrorsNew ''fail to fetch sp address''))) \<and>
   getQuotaPrice (no_client_env (ChainError ''bad config'')) (address_ctx []) =
     ([], Some (CmdErr (ChainError ''bad config'')))"
proof -
  have h: "ctx_String (address_ctx []) spAddressFlag = []"
    by (simp add: stub_defs)
  have built: "NewClient (stub_env stub_client) (address_ctx []) = Inr stub_client"
    and failed: "NewClient (no_client_env (ChainError ''bad config'')) (address_ctx []) =
      Inl (ChainError ''bad config'')"
    by (simp_all add: no_client_env_def stub_defs)
  from getQuotaPrice_empty_address [OF h, of "stub_env stub_client" stub_client]
       getQuotaPrice_empty_address
         [OF h, of "no_client_env (ChainError ''bad config'')" _ "ChainError ''bad config''"]
       built failed h
  show ?thesis by (simp add: prod_eq_iff)
qed

subsection \<open>C6: cancellation\<close>

text \<open>
  C6 as stated fails: when the existence check is aborted by cancellation, so that
  \<^verbatim>\<open>HeadBucket\<close> returns the cancellation error, \<^verbatim>\<open>getQuotaInfo\<close> reports
  \<open>ErrBucketNotExist\<close> (line 170 replaces whatever error \<^verbatim>\<open>HeadBucket\<close> returned),
  and the whole outcome is the one of a chain that answers that the bucket is unknown.
\<close>

theorem cancelled_head_bucket_counterexample:
  "HeadBucket (failing_client Canceled) (WithCancel globalContext) ''b1'' = Inl Canceled \<and>
   snd (getQuotaInfo (stub_env (failing_client Canceled)) (quota_ctx 1000000)) =
     Some (CmdErr ErrBucketNotExist) \<and>
   getQuotaInfo (stub_env (failing_client Canceled)) (quota_ctx 1000000) =
     getQuotaInfo (stub_env (failing_client (ChainError ''No such bucket''))) (quota_ctx 1000000)"
  by (simp add: getQuotaInfo_def toCmdErr_def stub_defs)

text \<open>
  C6, amended: a price query or a ledger read aborted by cancellation surfaces the
  cancellation error itself, handed unchanged to the command-error wrapper, and that
  outcome differs from the one of a chain error and from bucket-not-found. An aborted
  existence check surfaces as bucket-not-found in both actions, and an aborted
  submission is printed as the \<open>buy quota error:\<close> diagnostic with the text of the
  cancellation error while the action returns \<^verbatim>\<open>nil\<close>.
\<close>

theorem cancellation_outcomes:
  "NewClient env ctx = Inr cl \<Longrightarrow>
   (ctx_String ctx spAddressFlag \<noteq> [] \<and>
    GetStoragePrice cl (WithCancel globalContext) (ctx_String ctx spAddressFlag) = Inl Canceled \<longrightarrow>
      snd (getQuotaPrice env ctx) = Some (CmdErr Canceled)) \<and>
   (getBucketNameByUrl env ctx = Inr b \<and>
    HeadBucket cl (WithCancel globalContext) b = Inr i \<and>
    GetBucketReadQuota cl (WithCancel globalContext) b = Inl Canceled \<longrightarrow>
      snd (getQuotaInfo env ctx) = Some (CmdErr Canceled)) \<and>
   (getBucketNameByUrl env ctx = Inr b \<and>
    HeadBucket cl (WithCancel globalContext) b = Inl Canceled \<longrightarrow>
      snd (getQuotaInfo env ctx) = Some (CmdErr ErrBucketNotExist) \<and>
      snd (buyQuotaForBucket env ctx) = Some (CmdErr ErrBucketNotExist)) \<and>
   (getBucketNameByUrl env ctx = Inr b \<and>
    HeadBucket cl (WithCancel globalContext) b = Inr i \<and>
    ctx_Uint64 ctx chargeQuotaFlag \<noteq> 0 \<and>
    BuyQuotaForBucket cl (WithCancel globalContext) b (ctx_Uint64 ctx chargeQuotaFlag)
      \<lparr>TxOpts = Some \<lparr>Mode = Some BROADCAST_MODE_BLOCK\<rparr>\<rparr> = Inl Canceled \<longrightarrow>
      snd (buyQuotaForBucket env ctx) = None \<and>
      last (fst (buyQuotaForBucket env ctx)) =
        Println [Str ''buy quota error:'', ErrorText Canceled]) \<and>
   Some (CmdErr Canceled) \<noteq> Some (CmdErr (ChainError m)) \<and>
   Some (CmdErr Canceled) \<noteq> Some (CmdErr ErrBucketNotExist) \<and>
   Some (CmdErr Canceled) \<noteq> (None :: go_error option)"
  by (simp add: getQuotaPrice_def getQuotaInfo_def buyQuotaForBucket_def toCmdErr_def Let_def)

theorem cancellation_outcomes_witness:
  "snd (getQuotaPrice (stub_env (failing_after_head Canceled)) (address_ctx ''0x70'')) =
     Some (CmdErr Canceled) \<and>
   snd (getQuotaInfo (stub_env (failing_after_head Canceled)) (quota_ctx 1000000)) =
     Some (CmdErr Canceled) \<and>
   snd (buyQuotaForBucket (stub_env (failing_after_head Canceled)) (quota_ctx 1000000)) = None \<and>
   last (fst (buyQuotaForBucket (stub_env (failing_after_head Canceled)) (quota_ctx 1000000))) =
     Println [Str ''buy quota error:'', ErrorText Canceled] \<and>
   snd (getQuotaInfo (stub_env (failing_client Canceled)) (quota_ctx 1000000)) =
     Some (CmdErr ErrBucketNotExist) \<and>
   snd (buyQuotaForBucket (stub_env (failing_client Canceled)) (quota_ctx 1000000)) =
     Some (CmdErr ErrBucketNotExist)"
proof -
  have price: "NewClient (stub_env (failing_after_head Canceled)) (address_ctx ''0x70'') =
      Inr (failing_after_head Canceled)"
    and quota: "NewClient (stub_env (failing_after_head Canceled)) (quota_ctx 1000000) =
      Inr (failing_after_head Canceled)"
    and head: "NewClient (stub_env (failing_client Canceled)) (quota_ctx 1000000) =
      Inr (failing_client Canceled)"
    by (simp_all add: stub_defs)
  have pre:
    "ctx_String (address_ctx ''0x70'') spAddressFlag \<noteq> [] \<and>
     GetStoragePrice (failing_after_head Canceled) (WithCancel globalContext)
       (ctx_String (address_ctx ''0x70'') spAddressFlag) = Inl Canceled"
    "getBucketNameByUrl (stub_env (failing_after_head Canceled)) (quota_ctx 1000000) = Inr ''b1'' \<and>
     HeadBucket (failing_after_head Canceled) (WithCancel globalContext) ''b1'' = Inr () \<and>
     GetBucketReadQuota (failing_after_head Canceled) (WithCancel globalContext) ''b1'' =
       Inl Canceled"
    "ctx_Uint64 (quota_ctx 1000000) chargeQuotaFlag \<noteq> 0 \<and>
     BuyQuotaForBucket (failing_after_head Canceled) (WithCancel globalContext) ''b1''
       (ctx_Uint64 (quota_ctx 1000000) chargeQuotaFlag)
       \<lparr>TxOpts = Some \<lparr>Mode = Some BROADCAST_MODE_BLOCK\<rparr>\<rparr> = Inl Canceled"
    "getBucketNameByUrl (stub_env (failing_client Canceled)) (quota_ctx 1000000) = Inr ''b1'' \<and>
     HeadBucket (failing_client Canceled) (WithCancel globalContext) ''b1'' = Inl Canceled"
    by (simp_all add: stub_defs)
  from cancellation_outcomes [OF price, of "''b1''" "()"]
       cancellation_outcomes [OF quota, of "''b1''" "()"]
       cancellation_outcomes [OF head, of "''b1''" "()"] pre
  show ?thesis by blast
qed

subsection \<open>C7: a price that does not convert\<close>

text \<open>
  C7: for every price query of \<^verbatim>\<open>getQuotaPrice\<close> in which the conversion of the read
  price or of the store price fails with an error \<open>err\<close>, the action returns \<open>err\<close>
  as its error and prints no converted price at all: when the store price fails, the
  read price that was already converted is not printed.
\<close>

theorem getQuotaPrice_conversion_failure:
  "NewClient env ctx = Inr cl \<Longrightarrow>
   ctx_String ctx spAddressFlag \<noteq> [] \<Longrightarrow>
   GetStoragePrice cl (WithCancel globalContext) (ctx_String ctx spAddressFlag) = Inr price \<Longrightarrow>
   Float64 env (ReadPrice price) = Inl err \<or>
   (Float64 env (ReadPrice price) = Inr r \<and> Float64 env (StorePrice price) = Inl err) \<Longrightarrow>
   snd (getQuotaPrice env ctx) = Some err \<and>
   \<not> list_ex prints_price (fst (getQuotaPrice env ctx))"
  by (auto simp add: getQuotaPrice_def Let_def)

theorem getQuotaPrice_conversion_failure_witness:
  "Float64 (stub_env bad_store_price_client) ''0.001'' = Inr ''0.001'' \<and>
   snd (getQuotaPrice (stub_env bad_store_price_client) (address_ctx ''0x70'')) =
     Some (ChainError ''parse'') \<and>
   \<not> list_ex prints_price
       (fst (getQuotaPrice (stub_env bad_store_price_client) (address_ctx ''0x70'')))"
proof -
  have cl: "NewClient (stub_env bad_store_price_client) (address_ctx ''0x70'') =
      Inr bad_store_price_client"
    and addr: "ctx_String (address_ctx ''0x70'') spAddressFlag \<noteq> []"
    and price: "GetStoragePrice bad_store_price_client (WithCancel globalContext)
        (ctx_String (address_ctx ''0x70'') spAddressFlag) =
      Inr \<lparr>ReadPrice = ''0.001'', StorePrice = ''bad''\<rparr>"
    and conv: "Float64 (stub_env bad_store_price_client)
          (ReadPrice \<lparr>ReadPrice = ''0.001'', StorePrice = ''bad''\<rparr>) = Inl (ChainError ''parse'') \<or>
        (Float64 (stub_env bad_store_price_client)
           (ReadPrice \<lparr>ReadPrice = ''0.001'', StorePrice = ''bad''\<rparr>) = Inr ''0.001'' \<and>
         Float64 (stub_env bad_store_price_client)
           (StorePrice \<lparr>ReadPrice = ''0.001'', StorePrice = ''bad''\<rparr>) = Inl (ChainError ''parse''))"
    and rd: "Float64 (stub_env bad_store_price_client) ''0.001'' = Inr ''0.001''"
    by (simp_all add: stub_defs)
  from getQuotaPrice_conversion_failure [OF cl addr price conv] rd show ?thesis by simp
qed

subsection \<open>C8: the quota counters are reported as read\<close>

text \<open>
  C8: for every bucket that passes the existence check and whose ledger read returns
  a quota record, \<^verbatim>\<open>getQuotaInfo\<close> prints the charged, free and consumed counters of
  that record unchanged, in this order, and returns \<^verbatim>\<open>nil\<close>.
\<close>

theorem getQuotaInfo_reports_counters:
  "getBucketNameByUrl env ctx = Inr b \<Longrightarrow>
   NewClient env ctx = Inr cl \<Longrightarrow>
   HeadBucket cl (WithCancel globalContext) b = Inr i \<Longrightarrow>
   GetBucketReadQuota cl (WithCancel globalContext) b = Inr quota \<Longrightarrow>
   getQuotaInfo env ctx =
     ([HeadBucketCall (WithCancel globalContext) b,
       GetBucketReadQuotaCall (WithCancel globalContext) b,
       Printf
         ''quota info:\<newline> charged quota:%d \<newline>free quota:%d \<newline> consumed quota:%d \<newline>''
         [UInt (ReadQuotaSize quota), UInt (SPFreeReadQuotaSize quota),
          UInt (ReadConsumedSize quota)]],
      None)"
  by (simp add: getQuotaInfo_def Let_def)

theorem getQuotaInfo_reports_counters_witness:
  "getQuotaInfo (stub_env stub_client) (quota_ctx 0) =
     ([HeadBucketCall (WithCancel globalContext) ''b1'',
       GetBucketReadQuotaCall (WithCancel globalContext) ''b1'',
       Printf
         ''quota info:\<newline> charged quota:%d \<newline>free quota:%d \<newline> consumed quota:%d \<newline>''
         [UInt 1000000, UInt 200000, UInt 50000]],
      None)"
proof -
  have "getBucketNameByUrl (stub_env stub_client) (quota_ctx 0) = Inr ''b1''"
    and "NewClient (stub_env stub_client) (quota_ctx 0) = Inr stub_client"
    and "HeadBucket stub_client (WithCancel globalContext) ''b1'' = Inr ()"
    and "GetBucketReadQuota stub_client (WithCancel globalContext) ''b1'' =
      Inr \<lparr>ReadQuotaSize = 1000000, SPFreeReadQuotaSize = 200000, ReadConsumedSize = 50000\<rparr>"
    by (simp_all add: stub_defs)
  from getQuotaInfo_reports_counters [OF this] show ?thesis by simp
qed

subsection \<open>C9: an accepted purchase\<close>

text \<open>
  C9: for every run of \<^verbatim>\<open>buyQuotaForBucket\<close> in which the bucket exists, the target
  quota is not 0 and the chain client accepts the submission and returns a transaction
  hash, the action prints the success line with exactly that hash, returns \<^verbatim>\<open>nil\<close>,
  and has made exactly one submission.
\<close>

theorem buyQuota_accepted:
  "getBucketNameByUrl env ctx = Inr b \<Longrightarrow>
   NewClient env ctx = Inr cl \<Longrightarrow>
   HeadBucket cl (WithCancel globalContext) b = Inr i \<Longrightarrow>
   ctx_Uint64 ctx chargeQuotaFlag \<noteq> 0 \<Longrightarrow>
   BuyQuotaForBucket cl (WithCancel globalContext) b (ctx_Uint64 ctx chargeQuotaFlag)
     \<lparr>TxOpts = Some \<lparr>Mode = Some BROADCAST_MODE_BLOCK\<rparr>\<rparr> = Inr txnHash \<Longrightarrow>
   buyQuotaForBucket env ctx =
     ([HeadBucketCall (WithCancel globalContext) b,
       BuyQuotaForBucketCall (WithCancel globalContext) b (ctx_Uint64 ctx chargeQuotaFlag)
         \<lparr>TxOpts = Some \<lparr>Mode = Some BROADCAST_MODE_BLOCK\<rparr>\<rparr>,
       Printf ''buy quota for bucket: %s successfully, txn hash: %s\<newline>''
         [Str b, Str txnHash]],
      None) \<and>
   length (filter is_submission (fst (buyQuotaForBucket env ctx))) = 1"
  by (simp add: buyQuotaForBucket_def Let_def)

theorem buyQuota_accepted_witness:
  "buyQuotaForBucket (stub_env stub_client) (quota_ctx 1000000) =
     ([HeadBucketCall (WithCancel globalContext) ''b1'',
       BuyQuotaForBucketCall (WithCancel globalContext) ''b1'' 1000000
         \<lparr>TxOpts = Some \<lparr>Mode = Some BROADCAST_MODE_BLOCK\<rparr>\<rparr>,
       Printf ''buy quota for bucket: %s successfully, txn hash: %s\<newline>''
         [Str ''b1'', Str ''0xABC'']],
      None) \<and>
   length (filter is_submission
     (fst (buyQuotaForBucket (stub_env stub_client) (quota_ctx 1000000)))) = 1"
proof -
  have q: "ctx_Uint64 (quota_ctx 1000000) chargeQuotaFlag = 1000000"
    by (simp add: stub_defs)
  have "getBucketNameByUrl (stub_env stub_client) (quota_ctx 1000000) = Inr ''b1''"
    and "NewClient (stub_env stub_client) (quota_ctx 1000000) = Inr stub_client"
    and "HeadBucket stub_client (WithCancel globalContext) ''b1'' = Inr ()"
    and "ctx_Uint64 (quota_ctx 1000000) chargeQuotaFlag \<noteq> 0"
    and "BuyQuotaForBucket stub_client (WithCancel globalContext) ''b1''
        (ctx_Uint64 (quota_ctx 1000000) chargeQuotaFlag)
        \<lparr>TxOpts = Some \<lparr>Mode = Some BROADCAST_MODE_BLOCK\<rparr>\<rparr> = Inr ''0xABC''"
    by (simp_all add: stub_defs)
  from buyQuota_accepted [OF this] q show ?thesis by simp
qed

subsection \<open>C10: a failed ledger read reaches the error return, a failed purchase does not\<close>



end
